theory Spec2Isabelle
  imports Complex_Main "HOL-Library.Sublist"
begin


section \<open>JavaScript strings\<close>

text \<open>
  A JavaScript string is a sequence of code units. The model uses \<^typ>\<open>string\<close>, whose
  characters are the 256 code units of ISO-8859-1; the built-in string methods the
  generators call are defined on that range as ECMAScript defines them.
\<close>

text \<open>
  ECMAScript \<open>WhiteSpace\<close> and \<open>LineTerminator\<close> code units below 256: TAB, LF, VT, FF, CR,
  SP and NBSP. Both \<open>String.prototype.trim\<close> and the regular-expression class \<open>\s\<close> use
  this set.
\<close>

definition isWhiteSpace :: "char \<Rightarrow> bool" where
  "isWhiteSpace c = (of_char c \<in> {9, 10, 11, 12, 13, 32, 160 :: nat})"

text \<open>The code units that \<open>toLowerCase\<close> changes: A-Z and the Latin-1 capitals except U+00D7.\<close>

definition isUpper :: "char \<Rightarrow> bool" where
  "isUpper c = (let n = (of_char c :: nat) in
     (65 \<le> n \<and> n \<le> 90) \<or> (192 \<le> n \<and> n \<le> 222 \<and> n \<noteq> 215))"

definition lowerChar :: "char \<Rightarrow> char" where
  "lowerChar c = (if isUpper c then char_of (of_char c + (32::nat)) else c)"

definition toLowerCase :: "string \<Rightarrow> string" where
  "toLowerCase s = map lowerChar s"

definition trim :: "string \<Rightarrow> string" where
  "trim s = rev (dropWhile isWhiteSpace (rev (dropWhile isWhiteSpace s)))"

text \<open>\<open>str.endsWith(s)\<close>, \<open>str.slice(0, -1)\<close>, \<open>str.split(d)\<close> for a one-character \<open>d\<close>,
  \<open>arr.join(sep)\<close> and \<open>str.includes(k)\<close>.\<close>

definition endsWith :: "string \<Rightarrow> string \<Rightarrow> bool" where
  "endsWith str s = (length s \<le> length str \<and> drop (length str - length s) str = s)"

definition slice0m1 :: "'a list \<Rightarrow> 'a list" where
  "slice0m1 xs = take (length xs - 1) xs"

fun split :: "char \<Rightarrow> string \<Rightarrow> string list" where
  "split d [] = [[]]"
| "split d (c # cs) =
     (if c = d then [] # split d cs
      else (case split d cs of [] \<Rightarrow> [[c]] | s # ss \<Rightarrow> (c # s) # ss))"

fun join :: "string \<Rightarrow> string list \<Rightarrow> string" where
  "join sep [] = []"
| "join sep [x] = x"
| "join sep (x # y # ys) = x @ sep @ join sep (y # ys)"

fun includesStr :: "string \<Rightarrow> string \<Rightarrow> bool" where
  "includesStr [] k = (k = [])"
| "includesStr (c # cs) k = (take (length k) (c # cs) = k \<or> includesStr cs k)"

section \<open>Name normalizer (\<open>toKebab\<close>)\<close>

text \<open>
  \<^verbatim>\<open>input.trim().toLowerCase().replace(/[\s_]+/g, "-")\<close>:
  \<open>replaceRuns\<close> is the global replacement of every maximal run of whitespace or
  underscore characters by one hyphen.
\<close>

definition isSep :: "char \<Rightarrow> bool" where
  "isSep c = (isWhiteSpace c \<or> c = CHR ''_'')"

function replaceRuns :: "string \<Rightarrow> string" where
  "replaceRuns [] = []"
| "replaceRuns (c # cs) =
     (if isSep c then CHR ''-'' # replaceRuns (dropWhile isSep cs) else c # replaceRuns cs)"
  by pat_completeness auto
termination
  by (relation "measure length") (auto simp: length_dropWhile_le less_Suc_eq_le)

definition toKebab :: "string \<Rightarrow> string" where
  "toKebab input = replaceRuns (toLowerCase (trim input))"

section \<open>Path parser and route builder\<close>

text \<open>
  \<^verbatim>\<open>
  function plural(str: string): string {
      if (str.endsWith("s")) return str;
      if (str.endsWith("y")) return str.slice(0, -1) + "ies";
      return str + "s";
  }
  \<close>
\<close>

definition plural :: "string \<Rightarrow> string" where
  "plural str =
     (if endsWith str ''s'' then str
      else if endsWith str ''y'' then slice0m1 str @ ''ies''
      else str @ ''s'')"

text \<open>
  \<^verbatim>\<open>
  function parseModulePath(input: string) {
      const parts = input.split("/").filter((v) => v.trim() !== "");
      const moduleName = parts[parts.length - 1];
      const folderPath = parts.join("/");
      return { moduleName, folderPath, parts };
  }
  \<close>
  Reading \<open>parts[parts.length - 1]\<close> of an empty array gives \<open>undefined\<close>: \<open>None\<close>.
\<close>

record parsed =
  moduleName :: "string option"
  folderPath :: string
  parts :: "string list"

definition lastElem :: "'a list \<Rightarrow> 'a option" where
  "lastElem xs = (if xs = [] then None else Some (last xs))"

definition segments :: "string \<Rightarrow> string list" where
  "segments input = filter (\<lambda>v. trim v \<noteq> []) (split CHR ''/'' input)"

definition parseModulePath :: "string \<Rightarrow> parsed" where
  "parseModulePath input =
     (let ps = segments input
      in \<lparr>moduleName = lastElem ps, folderPath = join ''/'' ps, parts = ps\<rparr>)"

text \<open>
  \<^verbatim>\<open>
  function buildRoutePath(parts: string[]) {
      const parents = parts.slice(0, -1).join("/");
      const leaf = parts[parts.length - 1];
      const leafPlural = plural(leaf);
      return parents ? `${parents}/${leafPlural}` : leafPlural;
  }
  \<close>
  With no parts, \<open>leaf\<close> is \<open>undefined\<close> and \<open>plural\<close> throws a \<open>TypeError\<close> at
  \<open>str.endsWith\<close>.
\<close>

datatype error = TypeError | SyntaxError | ENOENT | ENOTDIR | EEXIST | EISDIR

definition buildRoutePath :: "string list \<Rightarrow> error + string" where
  "buildRoutePath ps =
     (let parents = join ''/'' (slice0m1 ps)
      in case lastElem ps of
           None \<Rightarrow> Inl TypeError
         | Some leaf \<Rightarrow>
             (let leafPlural = plural leaf
              in Inr (if parents \<noteq> [] then parents @ ''/'' @ leafPlural else leafPlural)))"


section \<open>Manifest (\<open>module.json\<close>)\<close>

text \<open>
  The manifest is kept as its parsed JSON value. An element of the \<open>modules\<close> array is a
  string (written by the backend generator), an object (the frontend generator writes
  \<open>{name, route}\<close>; the fields are \<open>None\<close> when absent or not a string), \<open>null\<close>, or
  any other JSON value (number or boolean). The \<open>modules\<close> property itself is absent
  (or falsy), a truthy value that is not an array, or an array. The other top-level
  properties, such as those \<open>generateModuleJson\<close> writes, are carried along unread.
\<close>

datatype entry = EString string | EObject "string option" "string option" | ENull | EOther

datatype modulesField = MAbsent | MOther | MArray "entry list"

record manifest =
  modules :: modulesField
  others :: string

text \<open>
  What \<open>JSON.parse\<close> can return for the manifest file: an object (the manifest), an array
  (its elements are carried along unread), or \<open>null\<close>, a boolean, a number or a string.
\<close>

datatype jsonDoc = DObject manifest | DArray string | DScalar

text \<open>\<open>m.name\<close>: reading a property of \<open>null\<close> throws, of a string or number gives
  \<open>undefined\<close>.\<close>

fun entryName :: "entry \<Rightarrow> error + string option" where
  "entryName (EString s) = Inr None"
| "entryName (EObject n r) = Inr n"
| "entryName ENull = Inl TypeError"
| "entryName EOther = Inr None"

text \<open>
  Frontend generator (\<open>generateFrontendModule\<close>, and the same two statements in the
  stand-alone frontend script):
  \<^verbatim>\<open>
  jsonData.modules = jsonData.modules.filter((m: any) => m.name !== rawModuleName);
  jsonData.modules.push({ name: rawModuleName, route: routePath });
  \<close>
\<close>

fun filterOtherNames :: "string \<Rightarrow> entry list \<Rightarrow> error + entry list" where
  "filterOtherNames raw [] = Inr []"
| "filterOtherNames raw (m # ms) =
     (case entryName m of
        Inl e \<Rightarrow> Inl e
      | Inr n \<Rightarrow>
          (case filterOtherNames raw ms of
             Inl e \<Rightarrow> Inl e
           | Inr ks \<Rightarrow> Inr (if n \<noteq> Some raw then m # ks else ks)))"

definition frontendModules :: "string \<Rightarrow> string \<Rightarrow> entry list \<Rightarrow> error + entry list" where
  "frontendModules rawModuleName routePath ms =
     (case filterOtherNames rawModuleName ms of
        Inl e \<Rightarrow> Inl e
      | Inr ks \<Rightarrow> Inr (ks @ [EObject (Some rawModuleName) (Some routePath)]))"

text \<open>
  Backend generator (\<open>updateModuleJson\<close> of \<open>generateServerModule\<close>):
  \<^verbatim>\<open>
  const exists = json.modules.some((m: any) =>
      (typeof m === 'string' && m === pathString) ||
      (typeof m === 'object' && m.name === pathString) // basic check
  );
  if (!exists) { json.modules.push(pathString); writeFileSync(...) }
  \<close>
  \<open>typeof null\<close> is \<open>'object'\<close>, so a \<open>null\<close> element reached by \<open>some\<close> throws.
  \<open>some\<close> stops at the first element for which the callback is true.
\<close>

fun entryMatches :: "string \<Rightarrow> entry \<Rightarrow> error + bool" where
  "entryMatches p (EString s) = Inr (s = p)"
| "entryMatches p (EObject n r) = Inr (n = Some p)"
| "entryMatches p ENull = Inl TypeError"
| "entryMatches p EOther = Inr False"

fun someMatches :: "string \<Rightarrow> entry list \<Rightarrow> error + bool" where
  "someMatches p [] = Inr False"
| "someMatches p (m # ms) =
     (case entryMatches p m of
        Inl e \<Rightarrow> Inl e
      | Inr True \<Rightarrow> Inr True
      | Inr False \<Rightarrow> someMatches p ms)"

text \<open>The result is the new array to write, or \<open>None\<close> when nothing is pushed or written.\<close>

definition serverModules :: "string \<Rightarrow> entry list \<Rightarrow> error + entry list option" where
  "serverModules pathString ms =
     (case someMatches pathString ms of
        Inl e \<Rightarrow> Inl e
      | Inr exists \<Rightarrow> Inr (if \<not> exists then Some (ms @ [EString pathString]) else None))"

text \<open>
  The stand-alone backend script has the older check:
  \<^verbatim>\<open>
  if (!json.modules.includes(pathString)) { json.modules.push(pathString); writeFileSync(...) }
  \<close>
\<close>

definition scriptModules :: "string \<Rightarrow> entry list \<Rightarrow> entry list option" where
  "scriptModules pathString ms =
     (if EString pathString \<notin> set ms then Some (ms @ [EString pathString]) else None)"

text \<open>\<open>if (!Array.isArray(json.modules)) json.modules = []\<close> (both backend versions) and
  \<open>if (!jsonData.modules) jsonData.modules = []\<close> (\<open>generateFrontendModule\<close>; a truthy
  value without a \<open>filter\<close> method then throws).\<close>

definition arrayOrEmpty :: "modulesField \<Rightarrow> entry list" where
  "arrayOrEmpty f = (case f of MArray ms \<Rightarrow> ms | _ \<Rightarrow> [])"

definition truthyOrEmpty :: "modulesField \<Rightarrow> error + entry list" where
  "truthyOrEmpty f = (case f of MArray ms \<Rightarrow> Inr ms | MAbsent \<Rightarrow> Inr [] | MOther \<Rightarrow> Inl TypeError)"


section \<open>Generated module: seed data (\<open>templateValues\<close>)\<close>

text \<open>
  \<open>str.toUpperCase()\<close> on the modelled code units: a-z and the Latin-1 small letters
  except U+00F7 move down by 32, U+00DF becomes \<open>SS\<close>. The capitals of U+00B5 and
  U+00FF lie outside ISO-8859-1; the model leaves these two code units unchanged.
\<close>

definition isLower :: "char \<Rightarrow> bool" where
  "isLower c = (let n = (of_char c :: nat) in
     (97 \<le> n \<and> n \<le> 122) \<or> (224 \<le> n \<and> n \<le> 254 \<and> n \<noteq> 247))"

definition upperChar :: "char \<Rightarrow> string" where
  "upperChar c =
     (if isLower c then [char_of (of_char c - (32::nat))]
      else if of_char c = (223::nat) then ''SS'' else [c])"

definition toUpperCase :: "string \<Rightarrow> string" where
  "toUpperCase s = concat (map upperChar s)"

text \<open>
  \<^verbatim>\<open>
  function capitalize(str: string) {
      return str.charAt(0).toUpperCase() + str.slice(1);
  }
  \<close>
\<close>

definition capitalize :: "string \<Rightarrow> string" where
  "capitalize str = (case str of [] \<Rightarrow> [] | c # cs \<Rightarrow> upperChar c @ cs)"

text \<open>Decimal rendering of a template expression such as \<open>${i + 1}\<close>.\<close>

definition digit :: "nat \<Rightarrow> char" where
  "digit d = char_of (48 + d)"

fun showNat :: "nat \<Rightarrow> string" where
  "showNat n = (if n < 10 then [digit n] else showNat (n div 10) @ [digit (n mod 10)])"

definition NL :: string where
  "NL = [CHR 0x0A]"

definition DQ :: string where
  "DQ = [CHR 0x22]"

text \<open>
  \<^verbatim>\<open>
  const dummy = Array.from({ length: 5 })
      .map((_, i) => {
          return `    {
        id: crypto.randomUUID(),
        name: "${Class} User ${i + 1}",
        email: "${name}${i + 1}@example.com",
        address: "City ${i + 1}",
        age: ${20 + i}
    }`;
      })
      .join(",\n");
  \<close>
\<close>

definition dummyEntry :: "string \<Rightarrow> nat \<Rightarrow> string" where
  "dummyEntry name i =
     ''    {'' @ NL
     @ ''        id: crypto.randomUUID(),'' @ NL
     @ ''        name: '' @ DQ @ capitalize name @ '' User '' @ showNat (i + 1) @ DQ @ '','' @ NL
     @ ''        email: '' @ DQ @ name @ showNat (i + 1) @ ''@example.com'' @ DQ @ '','' @ NL
     @ ''        address: '' @ DQ @ ''City '' @ showNat (i + 1) @ DQ @ '','' @ NL
     @ ''        age: '' @ showNat (20 + i) @ NL
     @ ''    }''"

definition dummyEntries :: "string \<Rightarrow> string list" where
  "dummyEntries name = map (dummyEntry name) [0..<5]"

definition templateValues :: "string \<Rightarrow> string" where
  "templateValues name =
     ''// Values for '' @ name @ '' module'' @ NL @ NL
     @ ''import type { '' @ capitalize name @ '' } from '' @ DQ @ ''./types'' @ DQ @ '';'' @ NL @ NL
     @ ''export let FAKE_'' @ toUpperCase name @ '': '' @ capitalize name @ ''[] = ['' @ NL
     @ join ('','' @ NL) (dummyEntries name) @ NL
     @ ''];'' @ NL"

section \<open>Generated module: records and numbers\<close>

text \<open>
  A JavaScript number is \<open>NaN\<close>, an infinity or a finite value; \<open>===\<close> on numbers is
  equality of the values, except that \<open>NaN\<close> equals nothing (\<open>+0\<close> and \<open>-0\<close> are the same
  finite value \<open>0\<close>).
\<close>

datatype jsnum = NaN | PosInf | NegInf | Fin real

definition strictEq :: "jsnum \<Rightarrow> jsnum \<Rightarrow> bool" where
  "strictEq a b = (a \<noteq> NaN \<and> a = b)"

text \<open>
  \<^verbatim>\<open>
  export interface ${Class} {
      id: string; name: string; email: string; address: string; age: number;
  }
  \<close>
  The store \<open>FAKE_${UPPER}\<close> is an array of such records, passed to and returned by every
  service function.
\<close>

record item =
  item_id :: string
  item_name :: string
  item_email :: string
  item_address :: string
  item_age :: jsnum

section \<open>Generated module: services (\<open>templateServices\<close>)\<close>

text \<open>
  The response helpers build \<open>{success, status, message, data?}\<close>.
\<close>

datatype payload = One item | Many "item list"

record response =
  status :: nat
  success :: bool
  message :: string
  data :: "payload option"

definition responseOk :: "payload \<Rightarrow> string option \<Rightarrow> response" where
  "responseOk d msg =
     \<lparr>status = 200, success = True,
      message = (case msg of None \<Rightarrow> ''Success'' | Some m \<Rightarrow> m), data = Some d\<rparr>"

definition responseCreated :: "payload \<Rightarrow> response" where
  "responseCreated d =
     \<lparr>status = 201, success = True, message = ''Created successfully'', data = Some d\<rparr>"

definition responseNotFound :: "string \<Rightarrow> response" where
  "responseNotFound msg = \<lparr>status = 404, success = False, message = msg, data = None\<rparr>"

definition responseBadRequest :: "string \<Rightarrow> response" where
  "responseBadRequest msg = \<lparr>status = 400, success = False, message = msg, data = None\<rparr>"

text \<open>
  \<open>URLSearchParams\<close> is the list of its key/value pairs; \<open>query.get(k)\<close> is the value of
  the first pair with key \<open>k\<close>, or \<open>null\<close>.
\<close>

type_synonym query = "(string \<times> string) list"

definition queryGet :: "query \<Rightarrow> string \<Rightarrow> string option" where
  "queryGet q k = map_of q k"

text \<open>
  \<^verbatim>\<open>
  function filter${Class}(query: URLSearchParams): ${Class}[] {
      let list = [...FAKE_${UPPER}];
      const address = query.get("address");
      if (address) {
          list = list.filter((x) => x.address.toLowerCase() === address.toLowerCase());
      }
      const age = query.get("age");
      if (age && !Number.isNaN(Number(age))) {
          list = list.filter((x) => x.age === Number(age));
      }
      const s = query.get("s");
      if (s) {
          const k = s.toLowerCase();
          list = list.filter((x) => x.name.toLowerCase().includes(k));
      }
      return list;
  }
  \<close>
  \<open>Number\<close> applied to a string is the parameter \<open>toNum\<close>. A string is truthy when it is
  not empty.
\<close>

definition truthy :: "string option \<Rightarrow> bool" where
  "truthy v = (case v of None \<Rightarrow> False | Some s \<Rightarrow> s \<noteq> [])"

definition filterClass :: "(string \<Rightarrow> jsnum) \<Rightarrow> item list \<Rightarrow> query \<Rightarrow> item list" where
  "filterClass toNum store q =
     (let list0 = store;
          address = queryGet q ''address'';
          list1 = (if truthy address
                   then filter (\<lambda>x. toLowerCase (item_address x) = toLowerCase (the address)) list0
                   else list0);
          age = queryGet q ''age'';
          list2 = (if truthy age \<and> toNum (the age) \<noteq> NaN
                   then filter (\<lambda>x. strictEq (item_age x) (toNum (the age))) list1
                   else list1);
          s = queryGet q ''s'';
          list3 = (if truthy s
                   then filter (\<lambda>x. includesStr (toLowerCase (item_name x)) (toLowerCase (the s))) list2
                   else list2)
      in list3)"

text \<open>
  \<^verbatim>\<open>
  export async function getAll${Class}(query?: URLSearchParams) {
      if (!query) return responseOk(FAKE_${UPPER});
      return responseOk(filter${Class}(query));
  }
  \<close>
  Every service returns its response together with the store as it leaves it.
\<close>

definition getAllClass ::
  "(string \<Rightarrow> jsnum) \<Rightarrow> item list \<Rightarrow> query option \<Rightarrow> response \<times> item list" where
  "getAllClass toNum store query =
     (case query of
        None \<Rightarrow> (responseOk (Many store) None, store)
      | Some q \<Rightarrow> (responseOk (Many (filterClass toNum store q)) None, store))"

text \<open>
  \<^verbatim>\<open>
  export async function insert${Class}(request: Request) {
      try {
          const body = await request.json();
          if (!body.name || !body.email) return responseBadRequest("Invalid payload");
          const item: ${Class} = {
              id: crypto.randomUUID(),
              name: body.name,
              email: body.email,
              address: body.address ?? "",
              age: Number(body.age) || 0
          };
          FAKE_${UPPER}.push(item);
          return responseCreated(item);
      } catch (err) {
          return responseBadRequest("Invalid JSON body", err);
      }
  }
  \<close>
  The body is taken at the types of the interface: \<open>name\<close>, \<open>email\<close> and \<open>address\<close> are
  strings or missing; \<open>age\<close> is missing, \<open>null\<close>, a boolean, a number or a string. A request
  whose body is not JSON, or is \<open>null\<close>, ends in the \<open>catch\<close>: the body \<open>None\<close>.
\<close>

datatype jsval = JUndefined | JNull | JBool bool | JNum jsnum | JStr string

record body =
  body_name :: "string option"
  body_email :: "string option"
  body_address :: "string option"
  body_age :: jsval

definition toNumber :: "(string \<Rightarrow> jsnum) \<Rightarrow> jsval \<Rightarrow> jsnum" where
  "toNumber toNum v =
     (case v of
        JUndefined \<Rightarrow> NaN
      | JNull \<Rightarrow> Fin 0
      | JBool b \<Rightarrow> Fin (if b then 1 else 0)
      | JNum n \<Rightarrow> n
      | JStr s \<Rightarrow> toNum s)"

definition orZero :: "jsnum \<Rightarrow> jsnum" where
  "orZero n = (if n = NaN \<or> n = Fin 0 then Fin 0 else n)"

definition insertClass ::
  "(string \<Rightarrow> jsnum) \<Rightarrow> string \<Rightarrow> item list \<Rightarrow> body option \<Rightarrow> response \<times> item list" where
  "insertClass toNum uuid store request =
     (case request of
        None \<Rightarrow> (responseBadRequest ''Invalid JSON body'', store)
      | Some b \<Rightarrow>
          if \<not> truthy (body_name b) \<or> \<not> truthy (body_email b)
          then (responseBadRequest ''Invalid payload'', store)
          else
            (let it = \<lparr>item_id = uuid,
                       item_name = the (body_name b),
                       item_email = the (body_email b),
                       item_address = (case body_address b of None \<Rightarrow> [] | Some a \<Rightarrow> a),
                       item_age = orZero (toNumber toNum (body_age b))\<rparr>
             in (responseCreated (One it), store @ [it])))"

text \<open>
  \<^verbatim>\<open>
  export async function delete${Class}ById(id: string) {
      const index = FAKE_${UPPER}.findIndex((x) => x.id === id);
      if (index === -1) return responseNotFound("${Class} not found");
      const removed = FAKE_${UPPER}.splice(index, 1)[0];
      return responseOk(removed, "${Class} deleted");
  }
  \<close>
  \<open>findIndex\<close> gives the first index whose element satisfies the test, \<open>None\<close> for \<open>-1\<close>.
\<close>

fun findIndex :: "('a \<Rightarrow> bool) \<Rightarrow> 'a list \<Rightarrow> nat option" where
  "findIndex P [] = None"
| "findIndex P (x # xs) =
     (if P x then Some 0 else (case findIndex P xs of None \<Rightarrow> None | Some i \<Rightarrow> Some (Suc i)))"

definition splice1 :: "nat \<Rightarrow> 'a list \<Rightarrow> 'a list" where
  "splice1 index xs = take index xs @ drop (Suc index) xs"

definition deleteClassById :: "string \<Rightarrow> item list \<Rightarrow> string \<Rightarrow> response \<times> item list" where
  "deleteClassById Class store ident =
     (case findIndex (\<lambda>x. item_id x = ident) store of
        None \<Rightarrow> (responseNotFound (Class @ '' not found''), store)
      | Some index \<Rightarrow>
          (responseOk (One (store ! index)) (Some (Class @ '' deleted'')), splice1 index store))"

text \<open>
  An example of a number parser for the evaluation of examples. It agrees with \<open>Number\<close>
  on the unsigned decimal integer literals of at most 15 digits (they are below \<open>2^53\<close>
  and exact) and on the empty string (\<open>0\<close>); on every other string it gives \<open>NaN\<close>, also
  where \<open>Number\<close> parses (signs, fractions, exponents, surrounding whitespace, longer
  literals).
\<close>

fun digitsValue :: "nat \<Rightarrow> string \<Rightarrow> nat option" where
  "digitsValue acc [] = Some acc"
| "digitsValue acc (c # cs) =
     (if 48 \<le> (of_char c :: nat) \<and> (of_char c :: nat) \<le> 57
      then digitsValue (10 * acc + (of_char c - 48)) cs else None)"

definition decimalNumber :: "string \<Rightarrow> jsnum" where
  "decimalNumber s =
     (case digitsValue 0 s of
        None \<Rightarrow> NaN
      | Some n \<Rightarrow> if length s \<le> 15 then Fin (real n) else NaN)"


section \<open>Generated module: evaluating \<open>values.ts\<close>\<close>


















section \<open>File system and process\<close>

text \<open>
  A path is the list of the segments of a normalized absolute POSIX path. \<open>path.join\<close>
  concatenates its arguments and normalizes: empty and \<open>.\<close> segments vanish, \<open>..\<close>
  removes the segment before it (and stays at the root). The first argument of every
  \<open>join\<close> of the generators is \<open>process.cwd()\<close> or a path built from it.
\<close>

type_synonym path = "string list"

fun normalizeSegs :: "path \<Rightarrow> string list \<Rightarrow> path" where
  "normalizeSegs acc [] = acc"
| "normalizeSegs acc (s # ss) =
     (if s = [] \<or> s = ''.'' then normalizeSegs acc ss
      else if s = ''..'' then normalizeSegs (butlast acc) ss
      else normalizeSegs (acc @ [s]) ss)"

definition pathJoin :: "path \<Rightarrow> string list \<Rightarrow> path" where
  "pathJoin base args = normalizeSegs base (concat (map (split CHR ''/'') args))"

text \<open>
  What a file holds: text, a template of the generators rendered with its arguments
  (the fixed template bodies are pure data and are kept symbolic), or JSON text, kept as
  the value it parses to. A file is the list of the pieces written and appended to it.
  Text that is JSON is always a \<open>Json\<close> piece: \<open>Lit\<close> and \<open>Rendered\<close> pieces stand for text
  that does not parse as JSON (sources, log lines), and neither does a file of several
  pieces.
\<close>

datatype template =
    ResponseHelperTs | TypesTs | ServicesTs | SpecMd | RouteListTs | RouteDetailTs
  | StoreTs | StateTypesTs | ServiceTs | DefaultValuesTs | PageSvelte | RoutePageSvelte

datatype chunk = Lit string | Rendered template "string list" | Json jsonDoc

datatype node = Dir | File "chunk list"

text \<open>
  The file system is the list of its successful mutations, the latest first: the node at a
  path is the one of its first entry. A call that fails, and a \<open>mkdirSync\<close> that finds its
  directory, add nothing, so two equal file systems have seen no write in between.
\<close>

type_synonym world = "(path \<times> node) list"

definition nodeAt :: "world \<Rightarrow> path \<Rightarrow> node option" where
  "nodeAt w p = (if p = [] then Some Dir else map_of w p)"

definition existsSync :: "world \<Rightarrow> path \<Rightarrow> bool" where
  "existsSync w p = (nodeAt w p \<noteq> None)"

definition isFile :: "world \<Rightarrow> path \<Rightarrow> bool" where
  "isFile w p = (case nodeAt w p of Some (File c) \<Rightarrow> True | _ \<Rightarrow> False)"

text \<open>An operation returns the error it throws, if any, and the file system it leaves.\<close>

type_synonym op = "world \<Rightarrow> error option \<times> world"

definition andThen :: "op \<Rightarrow> op \<Rightarrow> op" where
  "andThen f g w = (case f w of (Some e, w') \<Rightarrow> (Some e, w') | (None, w') \<Rightarrow> g w')"

fun runAll :: "op list \<Rightarrow> op" where
  "runAll [] w = (None, w)"
| "runAll (f # fs) w = andThen f (runAll fs) w"

definition unlessExists :: "path \<Rightarrow> op \<Rightarrow> op" where
  "unlessExists p f w = (if \<not> existsSync w p then f w else (None, w))"

text \<open>
  \<open>mkdirSync(p, { recursive: true })\<close> creates the missing directories of \<open>p\<close> from the
  top; it throws when \<open>p\<close> (\<open>EEXIST\<close>) or a directory above it (\<open>ENOTDIR\<close>) is a file.
\<close>

definition prefixes1 :: "path \<Rightarrow> path list" where
  "prefixes1 p = map (\<lambda>n. take n p) [1..<Suc (length p)]"

fun makeDirs :: "path list \<Rightarrow> world \<Rightarrow> world" where
  "makeDirs [] w = w"
| "makeDirs (q # qs) w = makeDirs qs (if existsSync w q then w else (q, Dir) # w)"

definition mkdirSync :: "path \<Rightarrow> op" where
  "mkdirSync p w =
     (if list_ex (isFile w) (prefixes1 p)
      then (Some (if isFile w p then EEXIST else ENOTDIR), w)
      else (None, makeDirs (prefixes1 p) w))"

text \<open>
  \<open>writeFileSync\<close> and \<open>appendFileSync\<close> need the directory of \<open>p\<close> to exist and \<open>p\<close> not
  to be a directory. The first replaces the file, the second adds to it or creates it.
\<close>

definition openForWrite :: "world \<Rightarrow> path \<Rightarrow> error option" where
  "openForWrite w p =
     (if nodeAt w p = Some Dir then Some EISDIR
      else (case nodeAt w (butlast p) of
              Some Dir \<Rightarrow> None
            | Some (File c) \<Rightarrow> Some ENOTDIR
            | None \<Rightarrow> Some ENOENT))"

definition writeFileSync :: "path \<Rightarrow> chunk \<Rightarrow> op" where
  "writeFileSync p c w =
     (case openForWrite w p of
        Some e \<Rightarrow> (Some e, w)
      | None \<Rightarrow> (None, (p, File [c]) # w))"

definition appendFileSync :: "path \<Rightarrow> string \<Rightarrow> op" where
  "appendFileSync p s w =
     (case openForWrite w p of
        Some e \<Rightarrow> (Some e, w)
      | None \<Rightarrow>
          (None, (p, File ((case nodeAt w p of Some (File c) \<Rightarrow> c | _ \<Rightarrow> []) @ [Lit s])) # w))"

definition readFileSync :: "world \<Rightarrow> path \<Rightarrow> error + chunk list" where
  "readFileSync w p =
     (case nodeAt w p of
        Some (File c) \<Rightarrow> Inr c
      | Some Dir \<Rightarrow> Inl EISDIR
      | None \<Rightarrow> Inl ENOENT)"

text \<open>\<open>JSON.parse\<close> of a file's text: only a file that is one \<open>Json\<close> piece parses.\<close>

definition jsonParse :: "chunk list \<Rightarrow> error + jsonDoc" where
  "jsonParse cs = (case cs of [Json d] \<Rightarrow> Inr d | _ \<Rightarrow> Inl SyntaxError)"

text \<open>
  How a run of a generator ends: it returns (exit code 0), calls \<open>process.exit(n)\<close>, or
  dies of an uncaught exception (exit code 1).
\<close>

datatype outcome = Completed | Exit nat | Uncaught error

fun exitCode :: "outcome \<Rightarrow> nat" where
  "exitCode Completed = 0"
| "exitCode (Exit n) = n"
| "exitCode (Uncaught e) = 1"

definition finish :: "op \<Rightarrow> world \<Rightarrow> outcome \<times> world" where
  "finish f w = (case f w of (Some e, w') \<Rightarrow> (Uncaught e, w') | (None, w') \<Rightarrow> (Completed, w'))"

section \<open>Backend generator (\<open>generateServerModule\<close>)\<close>

text \<open>
  \<^verbatim>\<open>
  function log(message: string) {
      const ts = new Date().toISOString();
      const logPath = join(process.cwd(), "module.log");
      appendFileSync(logPath, `[${ts}] ${message}\n`);
  }
  \<close>
  The time read by the call is the argument \<open>ts\<close>.
\<close>

definition log :: "path \<Rightarrow> string \<Rightarrow> string \<Rightarrow> op" where
  "log cwd ts msg =
     appendFileSync (pathJoin cwd [''module.log'']) (''['' @ ts @ ''] '' @ msg @ NL)"

text \<open>
  \<^verbatim>\<open>
  function updateModuleJson(pathString: string) {
      const file = join(process.cwd(), "module.json");
      let json: any = { modules: [] };
      if (existsSync(file)) {
          try {
              json = JSON.parse(readFileSync(file, "utf8"));
          } catch (e) { /* ignore */ }
      }
      if (!Array.isArray(json.modules)) json.modules = [];
      const exists = json.modules.some(...);
      if (!exists) {
          json.modules.push(pathString);
          writeFileSync(file, JSON.stringify(json, null, 2));
      }
  }
  \<close>
\<close>

definition emptyManifest :: manifest where
  "emptyManifest = \<lparr>modules = MArray [], others = []\<rparr>"

definition readManifestOrDefault :: "world \<Rightarrow> path \<Rightarrow> jsonDoc" where
  "readManifestOrDefault w file =
     (if existsSync w file
      then (case readFileSync w file of
              Inl e \<Rightarrow> DObject emptyManifest
            | Inr cs \<Rightarrow> (case jsonParse cs of Inl e \<Rightarrow> DObject emptyManifest | Inr d \<Rightarrow> d))
      else DObject emptyManifest)"

text \<open>
  When the file holds \<open>null\<close> or a primitive, \<open>json.modules\<close> (for \<open>null\<close>) or the
  assignment \<open>json.modules = []\<close> (for a primitive, in a module, which is strict code)
  throws a \<open>TypeError\<close> outside the \<open>try\<close>. When it holds an array, \<open>modules\<close> becomes a
  property of the array object, the path is pushed there, and \<open>JSON.stringify\<close> writes
  the array back without that property.
\<close>

definition updateModuleJson :: "path \<Rightarrow> string \<Rightarrow> op" where
  "updateModuleJson cwd pathString w =
     (let file = pathJoin cwd [''module.json'']
      in case readManifestOrDefault w file of
           DScalar \<Rightarrow> (Some TypeError, w)
         | DArray a \<Rightarrow> writeFileSync file (Json (DArray a)) w
         | DObject json \<Rightarrow>
             (case serverModules pathString (arrayOrEmpty (modules json)) of
                Inl e \<Rightarrow> (Some e, w)
              | Inr None \<Rightarrow> (None, w)
              | Inr (Some ms) \<Rightarrow>
                  writeFileSync file (Json (DObject (json\<lparr>modules := MArray ms\<rparr>))) w))"

text \<open>The templates of the backend generator, with the values they interpolate.\<close>

definition templateTypes :: "string \<Rightarrow> chunk" where
  "templateTypes name = Rendered TypesTs [name, capitalize name]"

definition templateServices :: "string \<Rightarrow> chunk" where
  "templateServices name = Rendered ServicesTs [name, capitalize name, toUpperCase name]"

definition templateRouteList :: "string \<Rightarrow> string \<Rightarrow> string \<Rightarrow> chunk" where
  "templateRouteList name routePlural modulePath =
     Rendered RouteListTs [routePlural, capitalize name, modulePath]"

definition templateRouteDetail :: "string \<Rightarrow> string \<Rightarrow> string \<Rightarrow> chunk" where
  "templateRouteDetail name routePlural modulePath =
     Rendered RouteDetailTs [routePlural, capitalize name, modulePath]"

definition templateSpec :: "string \<Rightarrow> string \<Rightarrow> chunk" where
  "templateSpec name pluralRoute = Rendered SpecMd [capitalize name, pluralRoute]"

text \<open>
  The part of \<open>generateServerModule\<close> after the guard, in the order of the source:
  \<^verbatim>\<open>
  const helperDir = join(cwd, "src/lib/helpers");
  const helperFile = join(helperDir, "response.ts");
  if (!existsSync(helperDir)) mkdirSync(helperDir, { recursive: true });
  if (!existsSync(helperFile)) {
      writeFileSync(helperFile, `...`);
      log("Created response helper");
  }
  mkdirSync(moduleFolderFullPath, { recursive: true });
  writeFileSync(join(moduleFolderFullPath, "types.ts"), templateTypes(moduleName));
  writeFileSync(join(moduleFolderFullPath, "values.ts"), templateValues(moduleName));
  writeFileSync(join(moduleFolderFullPath, "services.ts"), templateServices(moduleName));
  writeFileSync(join(moduleFolderFullPath, "spec.md"), templateSpec(moduleName, pluralRouteName));
  const routeDir = join(cwd, "src/routes/api", pluralRouteName);
  mkdirSync(routeDir, { recursive: true });
  mkdirSync(join(routeDir, "[id]"), { recursive: true });
  writeFileSync(join(routeDir, "+server.ts"), templateRouteList(moduleName, pluralRouteName, folderPath));
  writeFileSync(join(routeDir, "[id]", "+server.ts"), templateRouteDetail(moduleName, pluralRouteName, folderPath));
  log(`Generated module: ${rawPath}`);
  updateModuleJson(rawPath);
  \<close>
  \<open>clock 0\<close> and \<open>clock 1\<close> are the times the two \<open>log\<close> calls read.
\<close>

definition ensureHelper :: "path \<Rightarrow> (nat \<Rightarrow> string) \<Rightarrow> op list" where
  "ensureHelper cwd clock =
     (let helperDir = pathJoin cwd [''src/lib/helpers''];
          helperFile = pathJoin helperDir [''response.ts'']
      in [unlessExists helperDir (mkdirSync helperDir),
          unlessExists helperFile
            (runAll [writeFileSync helperFile (Rendered ResponseHelperTs []),
                     log cwd (clock 0) ''Created response helper''])])"

definition moduleAndRoutes ::
  "path \<Rightarrow> (nat \<Rightarrow> string) \<Rightarrow> string \<Rightarrow> string \<Rightarrow> string \<Rightarrow> string \<Rightarrow> path \<Rightarrow> op list" where
  "moduleAndRoutes cwd clock rawPath name folder pluralRouteName moduleFolderFullPath =
     (let routeDir = pathJoin cwd [''src/routes/api'', pluralRouteName]
      in [writeFileSync (pathJoin moduleFolderFullPath [''types.ts'']) (templateTypes name),
          writeFileSync (pathJoin moduleFolderFullPath [''values.ts'']) (Lit (templateValues name)),
          writeFileSync (pathJoin moduleFolderFullPath [''services.ts'']) (templateServices name),
          writeFileSync (pathJoin moduleFolderFullPath [''spec.md'']) (templateSpec name pluralRouteName),
          mkdirSync routeDir,
          mkdirSync (pathJoin routeDir [''[id]'']),
          writeFileSync (pathJoin routeDir [''+server.ts''])
            (templateRouteList name pluralRouteName folder),
          writeFileSync (pathJoin routeDir [''[id]'', ''+server.ts''])
            (templateRouteDetail name pluralRouteName folder),
          log cwd (clock 1) (''Generated module: '' @ rawPath),
          updateModuleJson cwd rawPath])"

text \<open>
  \<^verbatim>\<open>
  export function generateServerModule(rawPath: string) {
      const cwd = process.cwd();
      const { moduleName, folderPath, parts } = parseModulePath(rawPath);
      const pluralRouteName = buildRoutePath(parts);
      const moduleFolderFullPath = join(cwd, "src/lib/modules", folderPath);
      if (existsSync(moduleFolderFullPath)) {
          console.error(...);
          process.exit(1);
      }
      ...
  }
  \<close>
  Where \<open>buildRoutePath\<close> has returned, \<open>parts\<close> is not empty and \<open>moduleName\<close> is defined.
\<close>

definition generateServerModule ::
  "path \<Rightarrow> (nat \<Rightarrow> string) \<Rightarrow> world \<Rightarrow> string \<Rightarrow> outcome \<times> world" where
  "generateServerModule cwd clock w rawPath =
     (let p = parseModulePath rawPath
      in case buildRoutePath (parts p) of
           Inl e \<Rightarrow> (Uncaught e, w)
         | Inr pluralRouteName \<Rightarrow>
             (let moduleFolderFullPath = pathJoin cwd [''src/lib/modules'', folderPath p]
              in if existsSync w moduleFolderFullPath then (Exit 1, w)
                 else finish
                        (runAll (ensureHelper cwd clock
                                 @ [mkdirSync moduleFolderFullPath]
                                 @ moduleAndRoutes cwd clock rawPath (the (moduleName p))
                                     (folderPath p) pluralRouteName moduleFolderFullPath))
                        w))"

section \<open>Frontend generator (\<open>generateFrontendModule\<close>)\<close>

text \<open>
  \<^verbatim>\<open>
  function toPascal(input: string): string {
      return input.split(/[-/]/g).map((s) => s.charAt(0).toUpperCase() + s.slice(1)).join("");
  }
  \<close>
\<close>

fun splitWhere :: "(char \<Rightarrow> bool) \<Rightarrow> string \<Rightarrow> string list" where
  "splitWhere d [] = [[]]"
| "splitWhere d (c # cs) =
     (if d c then [] # splitWhere d cs
      else (case splitWhere d cs of [] \<Rightarrow> [[c]] | s # ss \<Rightarrow> (c # s) # ss))"

definition toPascal :: "string \<Rightarrow> string" where
  "toPascal input =
     concat (map capitalize (splitWhere (\<lambda>c. c = CHR ''-'' \<or> c = CHR ''/'') input))"

text \<open>
  The files \<open>generateFrontendModule\<close> writes, in the order of the source, then the log
  line and the manifest:
  \<^verbatim>\<open>
  let jsonData: any = { modules: [] };
  if (fs.existsSync(jsonFile)) {
      try { jsonData = JSON.parse(fs.readFileSync(jsonFile, "utf8")); }
      catch (error) { console.error(...); }
  }
  if (!jsonData.modules) jsonData.modules = [];
  jsonData.modules = jsonData.modules.filter((m: any) => m.name !== rawModuleName);
  jsonData.modules.push({ name: rawModuleName, route: routePath });
  fs.writeFileSync(jsonFile, JSON.stringify(jsonData, null, 2));
  \<close>
\<close>

definition updateFrontendJson :: "path \<Rightarrow> string \<Rightarrow> string \<Rightarrow> op" where
  "updateFrontendJson cwd rawModuleName routePath w =
     (let jsonFile = pathJoin cwd [''module.json'']
      in case readManifestOrDefault w jsonFile of
           DScalar \<Rightarrow> (Some TypeError, w)
         | DArray a \<Rightarrow> writeFileSync jsonFile (Json (DArray a)) w
         | DObject jsonData \<Rightarrow>
             (case truthyOrEmpty (modules jsonData) of
                Inl e \<Rightarrow> (Some e, w)
              | Inr ms \<Rightarrow>
                  (case frontendModules rawModuleName routePath ms of
                     Inl e \<Rightarrow> (Some e, w)
                   | Inr ms' \<Rightarrow>
                       writeFileSync jsonFile
                         (Json (DObject (jsonData\<lparr>modules := MArray ms'\<rparr>))) w)))"

definition frontendFiles :: "path \<Rightarrow> string \<Rightarrow> string \<Rightarrow> string \<Rightarrow> op list" where
  "frontendFiles cwd stamp rawModuleName routePath =
     (let pascal = toPascal rawModuleName;
          pageName = pascal @ ''Page'';
          modulePath = pathJoin cwd [''src'', ''lib'', ''modules'', rawModuleName];
          routeFullPath = pathJoin cwd [''src'', ''routes'', routePath]
      in [writeFileSync (pathJoin modulePath [''store.ts'']) (Rendered StoreTs [pascal]),
          writeFileSync (pathJoin modulePath [''types.ts'']) (Rendered StateTypesTs [pascal]),
          writeFileSync (pathJoin modulePath [''service.ts'']) (Rendered ServiceTs [pascal]),
          writeFileSync (pathJoin modulePath [''values.ts''])
            (Rendered DefaultValuesTs
               [map (\<lambda>c. if c = CHR ''-'' then CHR ''_'' else c) (toUpperCase rawModuleName)]),
          writeFileSync (pathJoin modulePath [pageName @ ''.svelte''])
            (Rendered PageSvelte [pascal, pageName]),
          writeFileSync (pathJoin routeFullPath [''+page.svelte''])
            (Rendered RoutePageSvelte [pageName, rawModuleName]),
          appendFileSync (pathJoin cwd [''module.log''])
            (''['' @ stamp @ ''] Created module: '' @ rawModuleName @ '' | route: '' @ routePath @ NL),
          updateFrontendJson cwd rawModuleName routePath])"

text \<open>
  \<^verbatim>\<open>
  export function generateFrontendModule(inputName: string, options: { route?: string }) {
      const cwd = process.cwd();
      const rawModuleName = toKebab(inputName);
      const routePath = options.route ? options.route : rawModuleName;
      ...
      const modulePath = path.join(cwd, "src", "lib", "modules", rawModuleName);
      const routeFullPath = path.join(cwd, "src", "routes", routePath);
      try {
          fs.mkdirSync(path.join(modulePath, "components"), { recursive: true });
          fs.mkdirSync(routeFullPath, { recursive: true });
      } catch (e) {
          console.error(...);
          process.exit(1);
      }
      ...
  }
  \<close>
  There is no test of \<open>modulePath\<close> before the directories are made. \<open>stamp\<close> is the local
  time \<open>timestamp()\<close> formats.
\<close>

definition generateFrontendModule ::
  "path \<Rightarrow> string \<Rightarrow> world \<Rightarrow> string \<Rightarrow> string option \<Rightarrow> outcome \<times> world" where
  "generateFrontendModule cwd stamp w inputName route =
     (let rawModuleName = toKebab inputName;
          routePath = (if truthy route then the route else rawModuleName);
          modulePath = pathJoin cwd [''src'', ''lib'', ''modules'', rawModuleName];
          routeFullPath = pathJoin cwd [''src'', ''routes'', routePath]
      in case runAll [mkdirSync (pathJoin modulePath [''components'']), mkdirSync routeFullPath] w of
           (Some e, w') \<Rightarrow> (Exit 1, w')
         | (None, w') \<Rightarrow> finish (runAll (frontendFiles cwd stamp rawModuleName routePath)) w')"


section \<open>Auxiliary notions\<close>

text \<open>An operation keeps what exists: whatever it returns, no path disappears.\<close>

definition keeps :: "op \<Rightarrow> bool" where
  "keeps f = (\<forall>w e w' q. f w = (e, w') \<longrightarrow> existsSync w q \<longrightarrow> existsSync w' q)"


section \<open>Properties of the string helpers\<close>

lemma slice0m1_snoc [simp]: "slice0m1 (xs @ [x]) = xs"
  by (simp add: slice0m1_def)

lemma slice0m1_butlast: "slice0m1 xs = butlast xs"
  by (simp add: slice0m1_def butlast_conv_take)

lemma endsWith_single: "endsWith str [c] = (str \<noteq> [] \<and> last str = c)"
proof (cases str rule: rev_cases)
  case Nil
  then show ?thesis by (simp add: endsWith_def)
next
  case (snoc ys y)
  then show ?thesis by (simp add: endsWith_def)
qed

lemma lowerChar_idem: "lowerChar (lowerChar c) = lowerChar c"
  by (auto simp add: lowerChar_def isUpper_def Let_def)

lemma lowerChar_hyphen: "lowerChar CHR ''-'' = CHR ''-''"
  by (simp add: lowerChar_def isUpper_def)

lemma replaceRuns_chars:
  "x \<in> set (replaceRuns s) \<Longrightarrow> x = CHR ''-'' \<or> (x \<in> set s \<and> \<not> isSep x)"
proof (induction s rule: replaceRuns.induct)
  case 1
  then show ?case by simp
next
  case (2 c cs)
  then show ?case
    by (auto split: if_splits dest: set_dropWhileD)
qed

lemma hyphen_not_sep: "\<not> isSep CHR ''-''"
  by (simp add: isSep_def isWhiteSpace_def)

lemma replaceRuns_no_sep: "x \<in> set (replaceRuns s) \<Longrightarrow> \<not> isSep x"
  using replaceRuns_chars hyphen_not_sep by blast

lemma replaceRuns_id: "(\<forall>x \<in> set s. \<not> isSep x) \<Longrightarrow> replaceRuns s = s"
  by (induction s) auto

lemma trim_id: "(\<forall>x \<in> set s. \<not> isWhiteSpace x) \<Longrightarrow> trim s = s"
proof -
  assume a: "\<forall>x \<in> set s. \<not> isWhiteSpace x"
  have d: "\<And>t. (\<forall>x \<in> set t. \<not> isWhiteSpace x) \<Longrightarrow> dropWhile isWhiteSpace t = t"
    by (case_tac t) auto
  from a have "dropWhile isWhiteSpace s = s" by (rule d)
  moreover from a have "dropWhile isWhiteSpace (rev s) = rev s" by (intro d) simp
  ultimately show ?thesis by (simp add: trim_def)
qed

lemma toKebab_chars:
  assumes "x \<in> set (toKebab s)"
  shows "\<not> isSep x \<and> lowerChar x = x"
proof -
  from assms have x: "x \<in> set (replaceRuns (map lowerChar (trim s)))"
    by (simp add: toKebab_def toLowerCase_def)
  then have "x = CHR ''-'' \<or> x \<in> set (map lowerChar (trim s))"
    using replaceRuns_chars by blast
  then have "lowerChar x = x"
    by (auto simp: lowerChar_hyphen lowerChar_idem)
  with x show ?thesis using replaceRuns_no_sep by blast
qed

text \<open>
  C9. \<open>toKebab\<close> is idempotent: \<open>toKebab(toKebab(s)) = toKebab(s)\<close> for every string \<open>s\<close>.
  \<open>toKebab\<close> trims, lowercases and replaces each run of whitespace or underscores by one
  hyphen (the second and third conjunct describe the result: it is the run-collapsed
  lowercased trimmed input and has no whitespace, underscore or capital left). The function
  has no failing branch: it is defined on every string.
\<close>

theorem toKebab_idempotent:
  "toKebab (toKebab s) = toKebab s
   \<and> toKebab s = replaceRuns (toLowerCase (trim s))
   \<and> list_all (\<lambda>c. \<not> isWhiteSpace c \<and> c \<noteq> CHR ''_'' \<and> \<not> isUpper c) (toKebab s)"
proof -
  let ?r = "toKebab s"
  have ns: "\<forall>x \<in> set ?r. \<not> isSep x" and lo: "\<forall>x \<in> set ?r. lowerChar x = x"
    using toKebab_chars by blast+
  from ns have "trim ?r = ?r" by (intro trim_id) (simp add: isSep_def)
  moreover from lo have "map lowerChar ?r = ?r" by (simp add: map_idI)
  moreover from ns have "replaceRuns ?r = ?r" by (rule replaceRuns_id)
  ultimately have idem: "toKebab ?r = ?r" by (simp add: toKebab_def toLowerCase_def)
  have "\<not> isUpper c" if "c \<in> set ?r" for c
  proof
    assume u: "isUpper c"
    from that lo have "lowerChar c = c" by blast
    with u have "char_of (of_char c + (32::nat)) = c" by (simp add: lowerChar_def)
    then have "(of_char c + 32) mod 256 = (of_char c :: nat)"
      by (metis of_char_of)
    with u show False by (auto simp: isUpper_def Let_def)
  qed
  with ns have "list_all (\<lambda>c. \<not> isWhiteSpace c \<and> c \<noteq> CHR ''_'' \<and> \<not> isUpper c) ?r"
    by (auto simp: list_all_iff isSep_def)
  with idem show ?thesis by (simp add: toKebab_def)
qed

lemma dw_all: "(\<forall>c \<in> set v. P c) \<Longrightarrow> dropWhile P v = []"
  by (induction v) auto
lemma dw_nil: "dropWhile P v = [] \<Longrightarrow> (\<forall>c \<in> set v. P c)"
  by (induction v) (auto split: if_splits)
lemma trim_empty_iff: "(trim v = []) = (\<forall>c \<in> set v. isWhiteSpace c)"
proof
  assume "trim v = []"
  then have "dropWhile isWhiteSpace (rev (dropWhile isWhiteSpace v)) = []"
    by (simp add: trim_def)
  then have "\<forall>c \<in> set (rev (dropWhile isWhiteSpace v)). isWhiteSpace c"
    by (rule dw_nil)
  then have "dropWhile isWhiteSpace (dropWhile isWhiteSpace v) = []"
    by (intro dw_all) simp
  then have "dropWhile isWhiteSpace v = []"
    by (simp add: dropWhile_idem)
  then show "\<forall>c \<in> set v. isWhiteSpace c"
    by (rule dw_nil)
next
  assume "\<forall>c \<in> set v. isWhiteSpace c"
  then have d: "dropWhile isWhiteSpace v = []" by (rule dw_all)
  show "trim v = []" unfolding trim_def d by simp
qed

lemma split_not_Nil: "split d s \<noteq> []"
  by (induction s) (auto split: list.splits)

lemma split_no_delim: "seg \<in> set (split d s) \<Longrightarrow> d \<notin> set seg"
proof (induction s arbitrary: seg)
  case Nil
  then show ?case by simp
next
  case (Cons c cs)
  then show ?case
    by (cases "split d cs") (auto split: if_splits)
qed

lemma join_split: "join [d] (split d s) = s"
proof (induction s)
  case Nil
  then show ?case by simp
next
  case (Cons c cs)
  show ?case
  proof (cases "split d cs")
    case Nil
    then show ?thesis using split_not_Nil by blast
  next
    case (Cons t ts)
    with Cons.IH show ?thesis by (cases ts) auto
  qed
qed

lemma segments_nonempty: "v \<in> set (segments input) \<Longrightarrow> v \<noteq> []"
  by (auto simp: segments_def trim_def)

lemma join_eq_Nil: "(\<forall>v \<in> set ps. v \<noteq> []) \<Longrightarrow> (join sep ps = []) = (ps = [])"
  by (induction sep ps rule: join.induct) auto

lemma buildRoutePath_segments:
  assumes "segments input \<noteq> []"
  shows "buildRoutePath (segments input) =
           Inr (if butlast (segments input) = [] then plural (last (segments input))
                else join ''/'' (butlast (segments input)) @ ''/'' @ plural (last (segments input)))"
proof -
  have "\<forall>v \<in> set (butlast (segments input)). v \<noteq> []"
    using segments_nonempty by (meson in_set_butlastD)
  then have "(join ''/'' (butlast (segments input)) = []) = (butlast (segments input) = [])"
    by (rule join_eq_Nil)
  with assms show ?thesis
    by (simp add: buildRoutePath_def lastElem_def slice0m1_butlast Let_def)
qed

subsection \<open>The pluralizer\<close>

text \<open>
  C1. For every leaf segment: a string ending in \<open>s\<close> is returned unchanged; otherwise a
  string ending in \<open>y\<close> loses the \<open>y\<close> and gets \<open>ies\<close>; every other string (the empty
  one included) gets \<open>s\<close> appended. So \<open>category\<close> gives \<open>categories\<close>, \<open>song\<close> gives
  \<open>songs\<close> and \<open>status\<close> stays \<open>status\<close>.
\<close>

theorem plural_rule:
  "plural (w @ ''s'') = w @ ''s''
   \<and> plural (w @ ''y'') = w @ ''ies''
   \<and> ((str = [] \<or> (last str \<noteq> CHR ''s'' \<and> last str \<noteq> CHR ''y'')) \<longrightarrow> plural str = str @ ''s'')
   \<and> plural ''category'' = ''categories''
   \<and> plural ''song'' = ''songs''
   \<and> plural ''status'' = ''status''"
proof -
  have s: "\<And>v. plural (v @ ''s'') = v @ ''s''"
    by (simp add: plural_def endsWith_single)
  have y: "\<And>v. plural (v @ ''y'') = v @ ''ies''"
    by (simp add: plural_def endsWith_single)
  have o: "(str = [] \<or> (last str \<noteq> CHR ''s'' \<and> last str \<noteq> CHR ''y'')) \<longrightarrow> plural str = str @ ''s''"
    by (auto simp: plural_def endsWith_single)
  have "plural ''category'' = ''categories''" using y [of "''categor''"] by simp
  moreover have "plural ''song'' = ''songs''" using o by (simp add: plural_def endsWith_single)
  moreover have "plural ''status'' = ''status''" using s [of "''statu''"] by simp
  ultimately show ?thesis using s y o by blast
qed

theorem plural_rule_witness:
  "(''box'' = [] \<or> (last ''box'' \<noteq> CHR ''s'' \<and> last ''box'' \<noteq> CHR ''y''))
   \<and> plural ''box'' = ''boxs'' \<and> plural ''bus'' = ''bus'' \<and> plural ''city'' = ''cities''"
  using plural_rule [of "''bu''" "''box''"] plural_rule [of "''cit''" "''box''"] by simp

subsection \<open>The path parser\<close>

text \<open>
  C2, as the code has it. For every input path that has at least one segment that is not
  empty or whitespace-only: the parser splits on \<open>/\<close> (joining the pieces with \<open>/\<close> gives
  the input back, and no piece contains \<open>/\<close>), keeps exactly the pieces that are not
  empty or whitespace-only, in order; \<open>folderPath\<close> is the kept segments joined with
  \<open>/\<close>; the route path is the pluralized last segment, preceded by the other segments
  joined with \<open>/\<close> and a \<open>/\<close> when there are any. The input \<open>bands/linkinpark/song\<close>
  gives route path \<open>bands/linkinpark/songs\<close> and module directory \<open>bands/linkinpark/song\<close>.
\<close>

theorem parse_route_path:
  assumes "segments input \<noteq> []"
  shows "join ''/'' (split CHR ''/'' input) = input
         \<and> list_all (\<lambda>seg. CHR ''/'' \<notin> set seg) (split CHR ''/'' input)
         \<and> parts (parseModulePath input)
             = filter (\<lambda>seg. \<not> list_all isWhiteSpace seg) (split CHR ''/'' input)
         \<and> folderPath (parseModulePath input) = join ''/'' (parts (parseModulePath input))
         \<and> buildRoutePath (parts (parseModulePath input))
             = Inr (if butlast (parts (parseModulePath input)) = []
                    then plural (last (parts (parseModulePath input)))
                    else join ''/'' (butlast (parts (parseModulePath input))) @ ''/''
                         @ plural (last (parts (parseModulePath input))))
         \<and> folderPath (parseModulePath ''bands/linkinpark/song'') = ''bands/linkinpark/song''
         \<and> buildRoutePath (parts (parseModulePath ''bands/linkinpark/song''))
             = Inr ''bands/linkinpark/songs''"
proof -
  have p: "parts (parseModulePath input) = segments input"
    by (simp add: parseModulePath_def Let_def)
  have 1: "join ''/'' (split CHR ''/'' input) = input" by (rule join_split)
  have 2: "list_all (\<lambda>seg. CHR ''/'' \<notin> set seg) (split CHR ''/'' input)"
    using split_no_delim by (auto simp: list_all_iff)
  have 3: "segments input = filter (\<lambda>seg. \<not> list_all isWhiteSpace seg) (split CHR ''/'' input)"
    by (simp add: segments_def trim_empty_iff list_all_iff)
  have 4: "folderPath (parseModulePath input) = join ''/'' (segments input)"
    by (simp add: parseModulePath_def Let_def)
  have 5: "buildRoutePath (segments input) =
           Inr (if butlast (segments input) = [] then plural (last (segments input))
                else join ''/'' (butlast (segments input)) @ ''/'' @ plural (last (segments input)))"
    using assms by (rule buildRoutePath_segments)
  have ws: "\<not> isWhiteSpace CHR ''b'' \<and> \<not> isWhiteSpace CHR ''l'' \<and> \<not> isWhiteSpace CHR ''s''"
    by (simp add: isWhiteSpace_def)
  have 6: "segments ''bands/linkinpark/song'' = [''bands'', ''linkinpark'', ''song'']"
    by (simp add: segments_def trim_def ws)
  have 7: "folderPath (parseModulePath ''bands/linkinpark/song'') = ''bands/linkinpark/song''"
    by (simp add: parseModulePath_def Let_def 6)
  have 8: "buildRoutePath (parts (parseModulePath ''bands/linkinpark/song''))
             = Inr ''bands/linkinpark/songs''"
    by (simp add: parseModulePath_def Let_def 6 buildRoutePath_def lastElem_def slice0m1_def
        plural_def endsWith_def)
  show ?thesis unfolding p by (intro conjI 1 2 3 4 5 7 8)
qed

theorem parse_route_path_witness:
  "segments ''music/rock/category'' \<noteq> []
   \<and> folderPath (parseModulePath ''music/rock/category'') = ''music/rock/category''
   \<and> buildRoutePath (parts (parseModulePath ''music/rock/category'')) = Inr ''music/rock/categories''"
proof -
  have ws: "\<not> isWhiteSpace CHR ''m'' \<and> \<not> isWhiteSpace CHR ''r'' \<and> \<not> isWhiteSpace CHR ''c''"
    by (simp add: isWhiteSpace_def)
  have s: "segments ''music/rock/category'' = [''music'', ''rock'', ''category'']"
    by (simp add: segments_def trim_def ws)
  then have h: "segments ''music/rock/category'' \<noteq> []" by simp
  have pl: "plural ''category'' = ''categories''"
    by (simp add: plural_def endsWith_def slice0m1_def)
  have p: "parts (parseModulePath ''music/rock/category'') = [''music'', ''rock'', ''category'']"
    by (simp add: parseModulePath_def Let_def s)
  from parse_route_path [OF h]
  have "folderPath (parseModulePath ''music/rock/category'')
          = join ''/'' (parts (parseModulePath ''music/rock/category''))"
    and "buildRoutePath (parts (parseModulePath ''music/rock/category''))
          = Inr (if butlast (parts (parseModulePath ''music/rock/category'')) = []
                 then plural (last (parts (parseModulePath ''music/rock/category'')))
                 else join ''/'' (butlast (parts (parseModulePath ''music/rock/category''))) @ ''/''
                      @ plural (last (parts (parseModulePath ''music/rock/category''))))"
    by blast+
  then show ?thesis unfolding p by (simp add: h pl)
qed

text \<open>
  The claim as stated (for every input path) fails on an input without any non-blank
  segment: for \<open>/\<close> the parts are empty and building the route path throws.
\<close>

theorem parse_route_path_counterexample:
  "parts (parseModulePath ''/'') = []
   \<and> buildRoutePath (parts (parseModulePath ''/'')) = Inl TypeError"
  by (simp add: parseModulePath_def segments_def trim_def buildRoutePath_def lastElem_def Let_def)

section \<open>Manifest deduplication\<close>

lemma filterOtherNames_ok:
  "ENull \<notin> set ms \<Longrightarrow>
   filterOtherNames raw ms = Inr (filter (\<lambda>m. m \<noteq> ENull \<and> entryName m \<noteq> Inr (Some raw)) ms)"
proof (induction ms)
  case Nil
  then show ?case by simp
next
  case (Cons m ms)
  then show ?case by (cases m) (auto split: bool.splits)
qed

lemma filterOtherNames_null: "ENull \<in> set ms \<Longrightarrow> filterOtherNames raw ms = Inl TypeError"
proof (induction ms)
  case Nil
  then show ?case by simp
next
  case (Cons m ms)
  then show ?case by (cases m) (auto split: sum.splits)
qed

lemma someMatches_ok:
  "ENull \<notin> set ms \<Longrightarrow>
   someMatches p ms = Inr (EString p \<in> set ms \<or> (\<exists>r. EObject (Some p) r \<in> set ms))"
proof (induction ms)
  case Nil
  then show ?case by simp
next
  case (Cons m ms)
  then show ?case by (cases m) (auto split: bool.splits)
qed

text \<open>
  C8, as the code has it. On a \<open>modules\<close> array without \<open>null\<close> elements: the frontend
  generator keeps, in order, exactly the entries whose \<open>name\<close> is not the new module
  name and then pushes the new \<open>{name, route}\<close> entry; the backend generator
  \<open>generateServerModule\<close> appends the path string if and only if no string entry equals
  it and no object entry has it as \<open>name\<close>; the stand-alone backend script appends it if
  and only if no entry equals that exact string.
\<close>

theorem manifest_dedup:
  assumes "ENull \<notin> set ms"
  shows "frontendModules raw route ms
           = Inr (filter (\<lambda>m. entryName m \<noteq> Inr (Some raw)) ms @ [EObject (Some raw) (Some route)])
         \<and> serverModules p ms
           = Inr (if EString p \<in> set ms \<or> (\<exists>r. EObject (Some p) r \<in> set ms) then None
                  else Some (ms @ [EString p]))
         \<and> scriptModules p ms = (if EString p \<in> set ms then None else Some (ms @ [EString p]))"
proof -
  from assms have "filter (\<lambda>m. m \<noteq> ENull \<and> entryName m \<noteq> Inr (Some raw)) ms
                 = filter (\<lambda>m. entryName m \<noteq> Inr (Some raw)) ms"
    by (intro filter_cong) auto
  with assms have f: "filterOtherNames raw ms = Inr (filter (\<lambda>m. entryName m \<noteq> Inr (Some raw)) ms)"
    by (simp add: filterOtherNames_ok)
  have "frontendModules raw route ms
          = Inr (filter (\<lambda>m. entryName m \<noteq> Inr (Some raw)) ms @ [EObject (Some raw) (Some route)])"
    by (simp add: frontendModules_def f)
  moreover from assms have "serverModules p ms
          = Inr (if EString p \<in> set ms \<or> (\<exists>r. EObject (Some p) r \<in> set ms) then None
                 else Some (ms @ [EString p]))"
    by (simp add: serverModules_def someMatches_ok)
  moreover have "scriptModules p ms = (if EString p \<in> set ms then None else Some (ms @ [EString p]))"
    by (simp add: scriptModules_def)
  ultimately show ?thesis by blast
qed

theorem manifest_dedup_witness:
  "ENull \<notin> set [EObject (Some ''user'') (Some ''old''), EString ''bands/song'', EObject (Some ''cart'') None]
   \<and> frontendModules ''user'' ''u'' [EObject (Some ''user'') (Some ''old''), EString ''bands/song'', EObject (Some ''cart'') None]
       = Inr [EString ''bands/song'', EObject (Some ''cart'') None, EObject (Some ''user'') (Some ''u'')]
   \<and> serverModules ''bands/song'' [EObject (Some ''user'') (Some ''old''), EString ''bands/song'', EObject (Some ''cart'') None]
       = Inr None
   \<and> serverModules ''song'' [EObject (Some ''user'') (Some ''old''), EString ''bands/song'', EObject (Some ''cart'') None]
       = Inr (Some [EObject (Some ''user'') (Some ''old''), EString ''bands/song'', EObject (Some ''cart'') None, EString ''song''])
   \<and> scriptModules ''cart'' [EObject (Some ''user'') (Some ''old''), EString ''bands/song'', EObject (Some ''cart'') None]
       = Some [EObject (Some ''user'') (Some ''old''), EString ''bands/song'', EObject (Some ''cart'') None, EString ''cart'']"
proof -
  let ?ms = "[EObject (Some ''user'') (Some ''old''), EString ''bands/song'', EObject (Some ''cart'') None]"
  have h: "ENull \<notin> set ?ms" by simp
  show ?thesis
    using manifest_dedup [OF h, of "''user''" "''u''" "''bands/song''"]
      manifest_dedup [OF h, of "''user''" "''u''" "''song''"]
      manifest_dedup [OF h, of "''user''" "''u''" "''cart''"]
    by simp
qed

text \<open>
  The claim as stated fails for \<open>generateServerModule\<close>: with the manifest holding the
  object entry \<open>{name: "user", route: "user"}\<close> no entry equals the string \<open>user\<close>, yet
  the path \<open>user\<close> is not appended.
\<close>

theorem manifest_dedup_counterexample:
  "EString ''user'' \<notin> set [EObject (Some ''user'') (Some ''user'')]
   \<and> serverModules ''user'' [EObject (Some ''user'') (Some ''user'')] = Inr None"
  by (simp add: serverModules_def)


section \<open>Services\<close>

lemma findIndex_Some: "findIndex P xs = Some i \<Longrightarrow> i < length xs \<and> P (xs ! i)"
proof (induction xs arbitrary: i)
  case Nil
  then show ?case by simp
next
  case (Cons x xs)
  then show ?case by (auto split: if_splits option.splits)
qed

lemma findIndex_None: "findIndex P xs = None \<Longrightarrow> \<forall>x \<in> set xs. \<not> P x"
  by (induction xs) (auto split: if_splits option.splits)

lemma length_splice1: "i < length xs \<Longrightarrow> Suc (length (splice1 i xs)) = length xs"
  by (simp add: splice1_def)

lemma findIndex_found: "x \<in> set xs \<Longrightarrow> P x \<Longrightarrow> \<exists>i. findIndex P xs = Some i"
  using findIndex_None by (cases "findIndex P xs") fastforce+

text \<open>
  C7. For every store and every insert body with truthy \<open>name\<close> and \<open>email\<close>: the insert
  answers 201 with a new record as its data, whose identifier is the generated one, and
  appends it to the store; deleting by the identifier of that returned record then
  answers 200 and leaves the store with the number of elements it had before the insert.
\<close>

theorem insert_delete_size:
  assumes "truthy (body_name b)" and "truthy (body_email b)"
  shows "\<exists>it. insertClass toNum uuid store (Some b) = (responseCreated (One it), store @ [it])
           \<and> data (fst (insertClass toNum uuid store (Some b))) = Some (One it)
           \<and> status (fst (insertClass toNum uuid store (Some b))) = 201
           \<and> item_id it = uuid
           \<and> status (fst (deleteClassById Class (snd (insertClass toNum uuid store (Some b)))
                              (item_id it))) = 200
           \<and> length (snd (deleteClassById Class (snd (insertClass toNum uuid store (Some b)))
                              (item_id it))) = length store"
proof -
  from assms obtain new where
    ins: "insertClass toNum uuid store (Some b) = (responseCreated (One new), store @ [new])"
    and idn: "item_id new = uuid"
    by (auto simp: insertClass_def Let_def)
  have "new \<in> set (store @ [new])" by simp
  then obtain i where i: "findIndex (\<lambda>x. item_id x = item_id new) (store @ [new]) = Some i"
    using findIndex_found [of new "store @ [new]" "\<lambda>x. item_id x = item_id new"] by blast
  from findIndex_Some [OF i] have "i < length (store @ [new])" by blast
  then have len: "Suc (length (splice1 i (store @ [new]))) = length (store @ [new])"
    by (rule length_splice1)
  from i have del: "deleteClassById Class (store @ [new]) (item_id new)
      = (responseOk (One ((store @ [new]) ! i)) (Some (Class @ '' deleted'')), splice1 i (store @ [new]))"
    by (simp add: deleteClassById_def)
  have "insertClass toNum uuid store (Some b) = (responseCreated (One new), store @ [new])
           \<and> data (fst (insertClass toNum uuid store (Some b))) = Some (One new)
           \<and> status (fst (insertClass toNum uuid store (Some b))) = 201
           \<and> item_id new = uuid
           \<and> status (fst (deleteClassById Class (snd (insertClass toNum uuid store (Some b)))
                              (item_id new))) = 200
           \<and> length (snd (deleteClassById Class (snd (insertClass toNum uuid store (Some b)))
                              (item_id new))) = length store"
    using len by (simp add: ins idn del [unfolded idn] responseCreated_def responseOk_def)
  then show ?thesis by blast
qed

theorem insert_delete_size_witness:
  "truthy (body_name \<lparr>body_name = Some ''Ann'', body_email = Some ''ann@example.com'',
                        body_address = None, body_age = JStr ''31''\<rparr>)
   \<and> truthy (body_email \<lparr>body_name = Some ''Ann'', body_email = Some ''ann@example.com'',
                          body_address = None, body_age = JStr ''31''\<rparr>)
   \<and> status (fst (insertClass decimalNumber ''u6''
               [\<lparr>item_id = ''u1'', item_name = ''Song User 1'', item_email = ''song1@example.com'',
                 item_address = ''City 1'', item_age = Fin 20\<rparr>]
               (Some \<lparr>body_name = Some ''Ann'', body_email = Some ''ann@example.com'',
                      body_address = None, body_age = JStr ''31''\<rparr>))) = 201
   \<and> length (snd (deleteClassById ''Song''
        (snd (insertClass decimalNumber ''u6''
               [\<lparr>item_id = ''u1'', item_name = ''Song User 1'', item_email = ''song1@example.com'',
                 item_address = ''City 1'', item_age = Fin 20\<rparr>]
               (Some \<lparr>body_name = Some ''Ann'', body_email = Some ''ann@example.com'',
                      body_address = None, body_age = JStr ''31''\<rparr>)))
        ''u6''))
     = length [\<lparr>item_id = ''u1'', item_name = ''Song User 1'', item_email = ''song1@example.com'',
                 item_address = ''City 1'', item_age = Fin 20\<rparr>]"
proof -
  let ?b = "\<lparr>body_name = Some ''Ann'', body_email = Some ''ann@example.com'',
             body_address = None, body_age = JStr ''31''\<rparr>"
  let ?store = "[\<lparr>item_id = ''u1'', item_name = ''Song User 1'', item_email = ''song1@example.com'',
                  item_address = ''City 1'', item_age = Fin 20\<rparr>]"
  have h1: "truthy (body_name ?b)" and h2: "truthy (body_email ?b)"
    by (simp_all add: truthy_def)
  let ?ins = "insertClass decimalNumber ''u6'' ?store (Some ?b)"
  from insert_delete_size [OF h1 h2, of decimalNumber "''u6''" ?store "''Song''"]
  obtain it where c: "?ins = (responseCreated (One it), ?store @ [it])
           \<and> data (fst ?ins) = Some (One it)
           \<and> status (fst ?ins) = 201
           \<and> item_id it = ''u6''
           \<and> status (fst (deleteClassById ''Song'' (snd ?ins) (item_id it))) = 200
           \<and> length (snd (deleteClassById ''Song'' (snd ?ins) (item_id it))) = length ?store" ..
  from c have s: "status (fst ?ins) = 201" by (elim conjE)
  from c have i: "item_id it = ''u6''" by (elim conjE)
  from c have l: "length (snd (deleteClassById ''Song'' (snd ?ins) (item_id it))) = length ?store"
    by (elim conjE)
  from l have "length (snd (deleteClassById ''Song''
              (snd (insertClass decimalNumber ''u6'' ?store (Some ?b))) ''u6''))
            = length ?store"
    by (simp only: i)
  with h1 h2 s show ?thesis by (intro conjI)
qed

lemma includesStr_iff: "includesStr s k = (\<exists>u v. s = u @ k @ v)"
proof (induction s)
  case Nil
  then show ?case by simp
next
  case (Cons c cs)
  show ?case
  proof
    assume "includesStr (c # cs) k"
    then consider "take (length k) (c # cs) = k" | "includesStr cs k" by auto
    then show "\<exists>u v. c # cs = u @ k @ v"
    proof cases
      case 1
      then have "c # cs = [] @ k @ drop (length k) (c # cs)"
        by (metis append_Nil append_take_drop_id)
      then show ?thesis by blast
    next
      case 2
      with Cons.IH obtain u v where "cs = u @ k @ v" by blast
      then have "c # cs = (c # u) @ k @ v" by simp
      then show ?thesis by blast
    qed
  next
    assume "\<exists>u v. c # cs = u @ k @ v"
    then obtain u v where e: "c # cs = u @ k @ v" by blast
    show "includesStr (c # cs) k"
    proof (cases u)
      case Nil
      with e have "take (length k) (c # cs) = k" by simp
      then show ?thesis by simp
    next
      case (Cons d u')
      with e have "cs = u' @ k @ v" by simp
      with Cons.IH have "includesStr cs k" by blast
      then show ?thesis by simp
    qed
  qed
qed

lemma filterClass_filter:
  "filterClass toNum store q
     = filter (\<lambda>x.
         (truthy (queryGet q ''address'')
            \<longrightarrow> toLowerCase (item_address x) = toLowerCase (the (queryGet q ''address'')))
         \<and> (truthy (queryGet q ''age'') \<and> toNum (the (queryGet q ''age'')) \<noteq> NaN
            \<longrightarrow> item_age x = toNum (the (queryGet q ''age'')))
         \<and> (truthy (queryGet q ''s'')
            \<longrightarrow> (\<exists>u v. toLowerCase (item_name x) = u @ toLowerCase (the (queryGet q ''s'')) @ v)))
       store"
  by (auto simp: filterClass_def Let_def strictEq_def includesStr_iff intro!: filter_cong)

text \<open>
  C5, as the code has it. A filter is applied when its query value is present and not
  the empty string (the age filter also needs a value that parses to a number); an empty
  value is treated like an absent one. The applied address filter keeps the records whose
  address equals the value case-insensitively; the applied age filter keeps the records
  whose age is numerically equal to the parsed value; the applied \<open>s\<close> filter keeps the
  records whose name contains the value case-insensitively. The result is the store
  filtered by the conjunction of the applied filters: a subsequence of the store in the
  store's order; the store itself is returned unchanged. Without applied filters, and
  without a query, all records come back in the original order; an applied address value
  that matches no record gives the empty result.
\<close>

theorem filter_semantics:
  "filterClass toNum store q
     = filter (\<lambda>x.
         (truthy (queryGet q ''address'')
            \<longrightarrow> toLowerCase (item_address x) = toLowerCase (the (queryGet q ''address'')))
         \<and> (truthy (queryGet q ''age'') \<and> toNum (the (queryGet q ''age'')) \<noteq> NaN
            \<longrightarrow> item_age x = toNum (the (queryGet q ''age'')))
         \<and> (truthy (queryGet q ''s'')
            \<longrightarrow> (\<exists>u v. toLowerCase (item_name x) = u @ toLowerCase (the (queryGet q ''s'')) @ v)))
       store
   \<and> subseq (filterClass toNum store q) store
   \<and> getAllClass toNum store (Some q) = (responseOk (Many (filterClass toNum store q)) None, store)
   \<and> getAllClass toNum store None = (responseOk (Many store) None, store)
   \<and> (\<not> truthy (queryGet q ''address'') \<and> \<not> truthy (queryGet q ''age'') \<and> \<not> truthy (queryGet q ''s'')
        \<longrightarrow> filterClass toNum store q = store)
   \<and> (truthy (queryGet q ''address'')
        \<and> (\<forall>x \<in> set store. toLowerCase (item_address x) \<noteq> toLowerCase (the (queryGet q ''address'')))
        \<longrightarrow> filterClass toNum store q = [])"
proof -
  note f = filterClass_filter [of toNum store q]
  have 2: "subseq (filterClass toNum store q) store"
    unfolding f by (rule subseq_filter_left)
  have 3: "getAllClass toNum store (Some q) = (responseOk (Many (filterClass toNum store q)) None, store)"
    by (simp add: getAllClass_def)
  have 4: "getAllClass toNum store None = (responseOk (Many store) None, store)"
    by (simp add: getAllClass_def)
  have 5: "\<not> truthy (queryGet q ''address'') \<and> \<not> truthy (queryGet q ''age'') \<and> \<not> truthy (queryGet q ''s'')
        \<longrightarrow> filterClass toNum store q = store"
    by (simp add: filterClass_def Let_def)
  have 6: "truthy (queryGet q ''address'')
        \<and> (\<forall>x \<in> set store. toLowerCase (item_address x) \<noteq> toLowerCase (the (queryGet q ''address'')))
        \<longrightarrow> filterClass toNum store q = []"
    unfolding f by (auto simp: filter_empty_conv)
  show ?thesis by (intro conjI f 2 3 4 5 6)
qed

theorem filter_semantics_witness:
  "truthy (queryGet [(''address'', ''ROME'')] ''address'')
   \<and> list_all (\<lambda>x. toLowerCase (item_address x)
                       \<noteq> toLowerCase (the (queryGet [(''address'', ''ROME'')] ''address'')))
        [\<lparr>item_id = ''a'', item_name = ''Song User 1'', item_email = ''song1@example.com'',
          item_address = ''City 1'', item_age = Fin 20\<rparr>,
         \<lparr>item_id = ''b'', item_name = ''Song User 2'', item_email = ''song2@example.com'',
          item_address = ''City 2'', item_age = Fin 21\<rparr>]
   \<and> filterClass decimalNumber
         [\<lparr>item_id = ''a'', item_name = ''Song User 1'', item_email = ''song1@example.com'',
           item_address = ''City 1'', item_age = Fin 20\<rparr>,
          \<lparr>item_id = ''b'', item_name = ''Song User 2'', item_email = ''song2@example.com'',
           item_address = ''City 2'', item_age = Fin 21\<rparr>]
         [(''address'', ''ROME'')] = []"
proof -
  let ?store = "[\<lparr>item_id = ''a'', item_name = ''Song User 1'', item_email = ''song1@example.com'',
                   item_address = ''City 1'', item_age = Fin 20\<rparr>,
                  \<lparr>item_id = ''b'', item_name = ''Song User 2'', item_email = ''song2@example.com'',
                   item_address = ''City 2'', item_age = Fin 21\<rparr>]"
  have g: "queryGet [(''address'', ''ROME'')] ''address'' = Some ''ROME''"
    by (simp add: queryGet_def)
  have t: "truthy (queryGet [(''address'', ''ROME'')] ''address'')"
    by (simp add: g truthy_def)
  have l: "toLowerCase ''ROME'' = ''rome''" "toLowerCase ''City 1'' = ''city 1''"
    "toLowerCase ''City 2'' = ''city 2''"
    by code_simp+
  have n: "\<forall>x \<in> set ?store.
         toLowerCase (item_address x) \<noteq> toLowerCase (the (queryGet [(''address'', ''ROME'')] ''address''))"
    by (simp add: g l)
  from filter_semantics [of decimalNumber ?store "[(''address'', ''ROME'')]"] t n
  have "filterClass decimalNumber ?store [(''address'', ''ROME'')] = []" by blast
  with t n show ?thesis by (simp only: list_all_iff simp_thms)
qed

text \<open>
  The claim as stated fails on an empty address value (\<open>?address=\<close>): it matches no
  record, case-insensitively or otherwise, yet every record is returned.
\<close>

theorem filter_semantics_counterexample:
  "toLowerCase (item_address \<lparr>item_id = ''a'', item_name = ''Song User 1'',
       item_email = ''song1@example.com'', item_address = ''City 1'', item_age = Fin 20\<rparr>)
     \<noteq> toLowerCase ''''
   \<and> filterClass decimalNumber
       [\<lparr>item_id = ''a'', item_name = ''Song User 1'', item_email = ''song1@example.com'',
         item_address = ''City 1'', item_age = Fin 20\<rparr>]
       [(''address'', '''')]
     = [\<lparr>item_id = ''a'', item_name = ''Song User 1'', item_email = ''song1@example.com'',
         item_address = ''City 1'', item_age = Fin 20\<rparr>]"
  by (simp add: toLowerCase_def filterClass_def queryGet_def truthy_def Let_def)


section \<open>Reading the generated \<open>values.ts\<close>\<close>





lemma dropWhile_skip: "list_all P xs \<Longrightarrow> dropWhile P (xs @ ys) = dropWhile P ys"
  by (induction xs) auto




























section \<open>File system operations\<close>

lemma existsSync_Cons: "existsSync w q \<Longrightarrow> existsSync (x # w) q"
  by (cases x) (auto simp: existsSync_def nodeAt_def)

lemma existsSync_Cons_same: "existsSync ((p, n) # w) p"
  by (simp add: existsSync_def nodeAt_def)

lemma makeDirs_keeps: "existsSync w q \<Longrightarrow> existsSync (makeDirs qs w) q"
  by (induction qs arbitrary: w) (auto simp: existsSync_Cons)

lemma makeDirs_makes: "q \<in> set qs \<Longrightarrow> existsSync (makeDirs qs w) q"
proof (induction qs arbitrary: w)
  case Nil
  then show ?case by simp
next
  case (Cons a qs)
  show ?case
  proof (cases "q = a")
    case True
    then have "existsSync (if existsSync w a then w else (a, Dir) # w) q"
      by (simp add: existsSync_Cons_same)
    then show ?thesis by (simp add: makeDirs_keeps)
  next
    case False
    with Cons show ?thesis by simp
  qed
qed

lemma self_in_prefixes1: "p \<noteq> [] \<Longrightarrow> p \<in> set (prefixes1 p)"
proof -
  assume "p \<noteq> []"
  then have "length p \<in> set [1..<Suc (length p)]" by (cases p) auto
  then have "take (length p) p \<in> set (prefixes1 p)"
    unfolding prefixes1_def set_map by (rule imageI)
  then show ?thesis by simp
qed

lemma mkdirSync_creates: "mkdirSync p w = (None, w') \<Longrightarrow> existsSync w' p"
proof (cases "p = []")
  case True
  then show ?thesis by (simp add: existsSync_def nodeAt_def)
next
  case False
  assume "mkdirSync p w = (None, w')"
  then have "w' = makeDirs (prefixes1 p) w"
    by (auto simp: mkdirSync_def split: if_splits)
  with False show ?thesis by (simp add: makeDirs_makes self_in_prefixes1)
qed

lemma keeps_mkdirSync: "keeps (mkdirSync p)"
  by (auto simp: keeps_def mkdirSync_def makeDirs_keeps split: if_splits)

lemma keeps_writeFileSync: "keeps (writeFileSync p c)"
  by (auto simp: keeps_def writeFileSync_def existsSync_Cons split: option.splits)

lemma keeps_appendFileSync: "keeps (appendFileSync p s)"
  by (auto simp: keeps_def appendFileSync_def existsSync_Cons split: option.splits)

lemma keeps_log: "keeps (log cwd ts msg)"
  by (simp add: log_def keeps_appendFileSync)

lemma keeps_updateModuleJson: "keeps (updateModuleJson cwd pathString)"
proof -
  have "\<And>f c. keeps (writeFileSync f c)" by (rule keeps_writeFileSync)
  then show ?thesis
    unfolding keeps_def updateModuleJson_def Let_def
    by (auto split: sum.splits option.splits jsonDoc.splits)
qed

lemma keeps_andThen: "keeps f \<Longrightarrow> keeps g \<Longrightarrow> keeps (andThen f g)"
  unfolding keeps_def andThen_def
  by (auto split: prod.splits option.splits)

lemma keeps_runAll: "(\<forall>f \<in> set fs. keeps f) \<Longrightarrow> keeps (runAll fs)"
proof (induction fs)
  case Nil
  then show ?case by (simp add: keeps_def)
next
  case (Cons f fs)
  then have "keeps (andThen f (runAll fs))" by (simp add: keeps_andThen)
  moreover have "runAll (f # fs) = andThen f (runAll fs)" by (rule ext) simp
  ultimately show ?case by simp
qed

lemma keeps_unlessExists: "keeps f \<Longrightarrow> keeps (unlessExists p f)"
  unfolding keeps_def unlessExists_def by (auto split: if_splits)

lemma runAll_append: "runAll (xs @ ys) w = andThen (runAll xs) (runAll ys) w"
proof (induction xs arbitrary: w)
  case Nil
  then show ?case by (simp add: andThen_def)
next
  case (Cons f xs)
  then show ?case by (auto simp: andThen_def split: prod.splits option.splits)
qed

lemma runAll_mkdir_exists:
  assumes "runAll (xs @ mkdirSync m # ys) w = (None, w1)" and "\<forall>f \<in> set ys. keeps f"
  shows "existsSync w1 m"
proof -
  from assms(1) obtain wa where a: "runAll xs w = (None, wa)"
    and r: "runAll (mkdirSync m # ys) wa = (None, w1)"
    by (auto simp: runAll_append andThen_def split: prod.splits option.splits)
  from r obtain wb where b: "mkdirSync m wa = (None, wb)" and c: "runAll ys wb = (None, w1)"
    by (auto simp: andThen_def split: prod.splits option.splits)
  from b have "existsSync wb m" by (rule mkdirSync_creates)
  moreover from assms(2) have "keeps (runAll ys)" by (rule keeps_runAll)
  ultimately show ?thesis using c unfolding keeps_def by blast
qed

lemma keeps_moduleAndRoutes:
  "\<forall>f \<in> set (moduleAndRoutes cwd clock rawPath name folder route mf). keeps f"
  by (simp add: moduleAndRoutes_def Let_def keeps_writeFileSync keeps_mkdirSync keeps_log
      keeps_updateModuleJson)

section \<open>The generators\<close>

lemma segments_filter:
  "segments input = filter (\<lambda>seg. \<not> list_all isWhiteSpace seg) (split CHR ''/'' input)"
  by (simp add: segments_def trim_empty_iff list_all_iff)

lemma segments_Nil_iff:
  "(segments input = []) = list_all (list_all isWhiteSpace) (split CHR ''/'' input)"
  by (simp add: segments_filter filter_empty_conv list_all_iff)

lemma generate_no_parts:
  "segments input = [] \<Longrightarrow> generateServerModule cwd clock w input = (Uncaught TypeError, w)"
  by (simp add: generateServerModule_def parseModulePath_def buildRoutePath_def lastElem_def Let_def)

lemma generate_guard:
  assumes "segments rawPath \<noteq> []"
    and "existsSync w (pathJoin cwd [''src/lib/modules'', folderPath (parseModulePath rawPath)])"
  shows "generateServerModule cwd clock w rawPath = (Exit 1, w)"
proof -
  from assms(1) obtain r where "buildRoutePath (segments rawPath) = Inr r"
    using buildRoutePath_segments by blast
  then have "buildRoutePath (parts (parseModulePath rawPath)) = Inr r"
    by (simp add: parseModulePath_def Let_def)
  with assms(2) show ?thesis
    by (simp add: generateServerModule_def Let_def)
qed

text \<open>
  C3, as the code has it. For every run of the backend generator (\<open>create-server\<close>): if the
  target module directory already exists, the run ends with exit code 1 and the file
  system is the one it started from: nothing, file or directory, has been written. With
  at least one non-blank segment in the path the run ends in \<open>process.exit(1)\<close> at the
  guard; with none it has already died in \<open>buildRoutePath\<close>.
\<close>

theorem server_guard:
  assumes "existsSync w (pathJoin cwd [''src/lib/modules'', folderPath (parseModulePath rawPath)])"
  shows "exitCode (fst (generateServerModule cwd clock w rawPath)) = 1
         \<and> snd (generateServerModule cwd clock w rawPath) = w
         \<and> (segments rawPath \<noteq> [] \<longrightarrow> generateServerModule cwd clock w rawPath = (Exit 1, w))"
proof (cases "segments rawPath = []")
  case True
  then show ?thesis by (simp add: generate_no_parts)
next
  case False
  from False assms have "generateServerModule cwd clock w rawPath = (Exit 1, w)"
    by (rule generate_guard)
  then show ?thesis by simp
qed

theorem server_guard_witness:
  "existsSync [([''app'', ''src'', ''lib'', ''modules'', ''bands'', ''song''], Dir)]
     (pathJoin [''app''] [''src/lib/modules'', folderPath (parseModulePath ''bands/song'')])
   \<and> segments ''bands/song'' \<noteq> []
   \<and> generateServerModule [''app''] showNat
       [([''app'', ''src'', ''lib'', ''modules'', ''bands'', ''song''], Dir)] ''bands/song''
     = (Exit 1, [([''app'', ''src'', ''lib'', ''modules'', ''bands'', ''song''], Dir)])"
proof -
  have h: "existsSync [([''app'', ''src'', ''lib'', ''modules'', ''bands'', ''song''], Dir)]
     (pathJoin [''app''] [''src/lib/modules'', folderPath (parseModulePath ''bands/song'')])"
    by code_simp
  have s: "segments ''bands/song'' \<noteq> []"
    by code_simp
  from server_guard [OF h, of showNat] s h show ?thesis by blast
qed

text \<open>
  The claim as stated fails for the frontend generator (\<open>create\<close>), which has no guard:
  with the module directory \<open>src/lib/modules/cart\<close> and its \<open>store.ts\<close> in place,
  \<open>create cart\<close> completes and has replaced the file.
\<close>

theorem server_guard_counterexample:
  "existsSync
     [([''app'', ''src'', ''lib'', ''modules'', ''cart'', ''store.ts''], File [Lit ''old'']),
      ([''app'', ''src'', ''lib'', ''modules'', ''cart''], Dir),
      ([''app'', ''src'', ''lib'', ''modules''], Dir),
      ([''app'', ''src'', ''lib''], Dir), ([''app'', ''src''], Dir), ([''app''], Dir)]
     (pathJoin [''app''] [''src'', ''lib'', ''modules'', toKebab ''cart''])
   \<and> fst (generateFrontendModule [''app''] ''2026-01-01 10:00:00''
        [([''app'', ''src'', ''lib'', ''modules'', ''cart'', ''store.ts''], File [Lit ''old'']),
         ([''app'', ''src'', ''lib'', ''modules'', ''cart''], Dir),
         ([''app'', ''src'', ''lib'', ''modules''], Dir),
         ([''app'', ''src'', ''lib''], Dir), ([''app'', ''src''], Dir), ([''app''], Dir)]
        ''cart'' None)
     = Completed
   \<and> nodeAt (snd (generateFrontendModule [''app''] ''2026-01-01 10:00:00''
        [([''app'', ''src'', ''lib'', ''modules'', ''cart'', ''store.ts''], File [Lit ''old'']),
         ([''app'', ''src'', ''lib'', ''modules'', ''cart''], Dir),
         ([''app'', ''src'', ''lib'', ''modules''], Dir),
         ([''app'', ''src'', ''lib''], Dir), ([''app'', ''src''], Dir), ([''app''], Dir)]
        ''cart'' None))
       [''app'', ''src'', ''lib'', ''modules'', ''cart'', ''store.ts'']
     = Some (File [Rendered StoreTs [''Cart'']])"
  by code_simp

text \<open>
  C4. When a run of the backend generator on a path has completed, a second run on the
  same path (at any later time) ends in \<open>process.exit(1)\<close> and leaves the file system
  exactly as the first run left it: no module file, no route file, no manifest update
  and no log line is written.
\<close>

theorem second_run_aborts:
  assumes "generateServerModule cwd clock w rawPath = (Completed, w1)"
  shows "generateServerModule cwd clock' w1 rawPath = (Exit 1, w1)"
proof -
  let ?p = "parseModulePath rawPath"
  let ?m = "pathJoin cwd [''src/lib/modules'', folderPath ?p]"
  from assms obtain r where r: "buildRoutePath (parts ?p) = Inr r"
    by (cases "buildRoutePath (parts ?p)") (auto simp: generateServerModule_def Let_def)
  from assms r have ne: "\<not> existsSync w ?m"
    by (auto simp: generateServerModule_def Let_def split: if_splits)
  from assms r ne have
    "finish (runAll (ensureHelper cwd clock @ [mkdirSync ?m]
               @ moduleAndRoutes cwd clock rawPath (the (moduleName ?p)) (folderPath ?p) r ?m)) w
       = (Completed, w1)"
    by (simp add: generateServerModule_def Let_def)
  then have "runAll (ensureHelper cwd clock @ mkdirSync ?m
               # moduleAndRoutes cwd clock rawPath (the (moduleName ?p)) (folderPath ?p) r ?m) w
       = (None, w1)"
    by (auto simp: finish_def split: prod.splits option.splits)
  then have "existsSync w1 ?m"
    using keeps_moduleAndRoutes by (rule runAll_mkdir_exists)
  with r show ?thesis
    by (simp add: generateServerModule_def Let_def)
qed

theorem second_run_aborts_witness:
  "fst (generateServerModule [''app''] showNat [([''app''], Dir)] ''bands/song'') = Completed
   \<and> generateServerModule [''app''] showNat
       (snd (generateServerModule [''app''] showNat [([''app''], Dir)] ''bands/song'')) ''bands/song''
     = (Exit 1, snd (generateServerModule [''app''] showNat [([''app''], Dir)] ''bands/song''))"
proof -
  have c: "fst (generateServerModule [''app''] showNat [([''app''], Dir)] ''bands/song'') = Completed"
    by code_simp
  then obtain w1 where
    g: "generateServerModule [''app''] showNat [([''app''], Dir)] ''bands/song'' = (Completed, w1)"
    by (cases "generateServerModule [''app''] showNat [([''app''], Dir)] ''bands/song''") simp
  from second_run_aborts [OF g, of showNat]
  show ?thesis by (simp add: g)
qed

text \<open>
  C10. The path parser is partial: for an input with at least one segment that is not
  empty or whitespace-only, the leaf name is the last such segment; for an input whose
  segments are all empty or whitespace-only (such as \<open>/\<close>, \<open>///\<close> and \<open> / \<close>)
  there is no leaf name and \<open>folderPath\<close> is empty, and the backend generator, which has
  no usage check for this case, goes on to \<open>buildRoutePath\<close> and dies there of a
  \<open>TypeError\<close> with nothing written.
\<close>

theorem parser_partial:
  "(list_ex (\<lambda>seg. \<not> list_all isWhiteSpace seg) (split CHR ''/'' input)
      \<longrightarrow> moduleName (parseModulePath input)
            = Some (last (filter (\<lambda>seg. \<not> list_all isWhiteSpace seg) (split CHR ''/'' input))))
   \<and> (list_all (list_all isWhiteSpace) (split CHR ''/'' input)
      \<longrightarrow> moduleName (parseModulePath input) = None
          \<and> folderPath (parseModulePath input) = []
          \<and> generateServerModule cwd clock w input = (Uncaught TypeError, w))
   \<and> moduleName (parseModulePath ''/'') = None
   \<and> moduleName (parseModulePath ''///'') = None
   \<and> moduleName (parseModulePath '' / '') = None"
proof -
  have a: "list_ex (\<lambda>seg. \<not> list_all isWhiteSpace seg) (split CHR ''/'' input)
      \<longrightarrow> moduleName (parseModulePath input)
            = Some (last (filter (\<lambda>seg. \<not> list_all isWhiteSpace seg) (split CHR ''/'' input)))"
    by (auto simp: parseModulePath_def Let_def lastElem_def segments_filter filter_empty_conv
        list_ex_iff)
  have b: "list_all (list_all isWhiteSpace) (split CHR ''/'' input)
      \<longrightarrow> moduleName (parseModulePath input) = None
          \<and> folderPath (parseModulePath input) = []
          \<and> generateServerModule cwd clock w input = (Uncaught TypeError, w)"
  proof
    assume "list_all (list_all isWhiteSpace) (split CHR ''/'' input)"
    then have s: "segments input = []" by (simp add: segments_Nil_iff)
    then show "moduleName (parseModulePath input) = None
          \<and> folderPath (parseModulePath input) = []
          \<and> generateServerModule cwd clock w input = (Uncaught TypeError, w)"
      by (simp add: generate_no_parts parseModulePath_def Let_def lastElem_def)
  qed
  have sp: "isWhiteSpace CHR '' ''" by (simp add: isWhiteSpace_def)
  have c: "moduleName (parseModulePath ''/'') = None"
    "moduleName (parseModulePath ''///'') = None"
    "moduleName (parseModulePath '' / '') = None"
    by (simp_all add: parseModulePath_def Let_def lastElem_def segments_filter sp)
  show ?thesis by (intro conjI a b c)
qed

theorem parser_partial_witness:
  "list_all (list_all isWhiteSpace) (split CHR ''/'' '' / '')
   \<and> generateServerModule [''app''] showNat [([''app''], Dir)] '' / ''
       = (Uncaught TypeError, [([''app''], Dir)])
   \<and> list_ex (\<lambda>seg. \<not> list_all isWhiteSpace seg) (split CHR ''/'' ''bands/song'')
   \<and> moduleName (parseModulePath ''bands/song'') = Some ''song''"
proof -
  have h1: "list_all (list_all isWhiteSpace) (split CHR ''/'' '' / '')"
    by code_simp
  have h2: "list_ex (\<lambda>seg. \<not> list_all isWhiteSpace seg) (split CHR ''/'' ''bands/song'')"
    by code_simp
  have e: "last (filter (\<lambda>seg. \<not> list_all isWhiteSpace seg) (split CHR ''/'' ''bands/song'')) = ''song''"
    by code_simp
  from parser_partial [of "'' / ''" "[''app'']" showNat "[([''app''], Dir)]"] h1
  have a: "generateServerModule [''app''] showNat [([''app''], Dir)] '' / ''
       = (Uncaught TypeError, [([''app''], Dir)])"
    by blast
  from parser_partial [of "''bands/song''" "[''app'']" showNat "[([''app''], Dir)]"] h2
  have "moduleName (parseModulePath ''bands/song'')
          = Some (last (filter (\<lambda>seg. \<not> list_all isWhiteSpace seg) (split CHR ''/'' ''bands/song'')))"
    by blast
  then have b: "moduleName (parseModulePath ''bands/song'') = Some ''song''"
    by (simp only: e)
  from h1 a h2 b show ?thesis by (intro conjI)
qed


end
